theory Spec2Isabelle
  imports
    Complex_Main
    "HOL-Library.Char_ord"
    "HOL-Library.List_Lexorder"
    "HOL-Library.Log_Nat"
    "HOL-Library.Sublist"
begin

section \<open>RateGovernor: \<open>src/lib/rateLimit.ts\<close>\<close>

text \<open>
  The module keeps one process-wide \<open>Map<string, RateLimitEntry>\<close> and reads the clock
  with \<open>Date.now()\<close>. The model passes both explicitly: every operation takes the store
  and the clock reading and returns the new store. Counters, limits and millisecond
  timestamps are integers far below \<open>2^53\<close>, where JavaScript numbers are exact, so they
  are \<^typ>\<open>int\<close>. Every \<open>store.set\<close> of the source stores an object of its own under one
  key, so no two keys share an entry and a functional map is faithful.
\<close>

record RateLimitEntry =
  count :: int
  resetAt :: int

type_synonym store = "string \<rightharpoonup> RateLimitEntry"

record RateLimitResult =
  allowed :: bool
  remaining :: int
  resultResetAt :: int

definition checkRateLimit ::
  "store \<Rightarrow> int \<Rightarrow> string \<Rightarrow> int \<Rightarrow> int \<Rightarrow> RateLimitResult \<times> store" where
  "checkRateLimit st now key limit windowMs =
     (case st key of
        None \<Rightarrow>
          (\<lparr>allowed = True, remaining = limit - 1, resultResetAt = now + windowMs\<rparr>,
           st(key \<mapsto> \<lparr>count = 1, resetAt = now + windowMs\<rparr>))
      | Some entry \<Rightarrow>
          if resetAt entry \<le> now then
            (\<lparr>allowed = True, remaining = limit - 1, resultResetAt = now + windowMs\<rparr>,
             st(key \<mapsto> \<lparr>count = 1, resetAt = now + windowMs\<rparr>))
          else if count entry \<ge> limit then
            (\<lparr>allowed = False, remaining = 0, resultResetAt = resetAt entry\<rparr>, st)
          else
            (\<lparr>allowed = True, remaining = limit - (count entry + 1),
              resultResetAt = resetAt entry\<rparr>,
             st(key \<mapsto> entry\<lparr>count := count entry + 1\<rparr>)))"

definition cleanupRateLimit :: "store \<Rightarrow> int \<Rightarrow> store" where
  "cleanupRateLimit st now =
     (\<lambda>key. case st key of
        None \<Rightarrow> None
      | Some entry \<Rightarrow> if resetAt entry \<le> now then None else Some entry)"

section \<open>JavaScript numbers\<close>

text \<open>
  A JavaScript number is an IEEE 754 binary64 value. The model takes a finite number as
  the real it denotes and writes the rounding of each arithmetic result out: \<open>f64 x\<close>
  is the double nearest to \<open>x\<close>, ties going to the even significand. With
  \<open>e = \<lfloor>log\<^sub>2 \<bar>x\<bar>\<rfloor>\<close> (not below \<open>-1022\<close>, where the subnormal numbers start) the doubles
  around \<open>x\<close> are the integer multiples of \<open>2\<^bsup>e - 52\<^esup>\<close>. Overflow to \<open>Infinity\<close> is not
  modelled: the only operations rounded here divide by 100 or multiply a number not
  above 1 by 100. \<open>NaN\<close> and the infinities are no values of the model; a JSON
  payload cannot carry them, and where the source tests for a missing or \<open>NaN\<close>
  argument the model has \<open>None\<close>.
\<close>

definition roundTiesToEven :: "real \<Rightarrow> int" where
  "roundTiesToEven q =
     (let n = \<lfloor>q\<rfloor>; r = q - of_int n
      in if r < 1 / 2 then n else if 1 / 2 < r then n + 1 else if even n then n else n + 1)"

text \<open>\<open>ilog2 a\<close> is \<open>\<lfloor>log\<^sub>2 a\<rfloor>\<close> for a positive \<open>a\<close>, computed from bit lengths.\<close>

definition ilog2 :: "real \<Rightarrow> int" where
  "ilog2 a = (if 1 \<le> a then bitlen \<lfloor>a\<rfloor> - 1 else - bitlen (\<lceil>1 / a\<rceil> - 1))"

definition f64 :: "real \<Rightarrow> real" where
  "f64 x =
     (if x = 0 then 0
      else let e = max (ilog2 \<bar>x\<bar>) (- 1022); u = 2 powi (e - 52)
           in of_int (roundTiesToEven (x / u)) * u)"

text \<open>
  \<^verbatim>\<open>function normalizeShare(value: number): number {
    if (value > 1) { return value / 100; }
    return value; }\<close>
\<close>

definition normalizeShare :: "real \<Rightarrow> real" where
  "normalizeShare v = (if 1 < v then f64 (v / 100) else v)"

text \<open>
  \<^verbatim>\<open>export function normalizePercent(value?: number): number | undefined {
    if (value === undefined || value === null || Number.isNaN(value)) { return undefined; }
    return value > 1 ? value : value * 100; }\<close>
  \<open>None\<close> is the argument that is \<open>undefined\<close>, \<open>null\<close> or \<open>NaN\<close>, and the result
  \<open>undefined\<close>.
\<close>

definition normalizePercent :: "real option \<Rightarrow> real option" where
  "normalizePercent v =
     (case v of
        None \<Rightarrow> None
      | Some x \<Rightarrow> Some (if 1 < x then x else f64 (x * 100)))"

section \<open>Provider payloads\<close>

text \<open>
  A payload is what \<open>response.json()\<close> returns: a JSON value. An object is the list of
  its own properties in enumeration order, with distinct keys; reading a property that
  is absent gives \<open>undefined\<close>, here \<open>None\<close>. Members inherited from a prototype are
  not part of the model: they are functions (or, under \<open>__proto__\<close>, the prototype),
  and the keys the program reads are the fixed names listed below.
\<close>

datatype json =
    JNull
  | JBool bool
  | JNum real
  | JStr string
  | JArr "json list"
  | JObj "(string \<times> json) list"

text \<open>JavaScript truthiness, as \<open>!raw\<close> and \<open>x && ...\<close> test it.\<close>

fun truthy :: "json \<Rightarrow> bool" where
  "truthy JNull = False"
| "truthy (JBool b) = b"
| "truthy (JNum x) = (x \<noteq> 0)"
| "truthy (JStr s) = (s \<noteq> [])"
| "truthy (JArr xs) = True"
| "truthy (JObj kvs) = True"

text \<open>\<open>typeof x === "object"\<close>: true of \<open>null\<close>, arrays and objects.\<close>

fun typeofObject :: "json \<Rightarrow> bool" where
  "typeofObject JNull = True"
| "typeofObject (JArr xs) = True"
| "typeofObject (JObj kvs) = True"
| "typeofObject _ = False"

definition isDigit :: "char \<Rightarrow> bool" where
  "isDigit c = (CHR ''0'' \<le> c \<and> c \<le> CHR ''9'')"

definition digitValue :: "char \<Rightarrow> nat" where
  "digitValue c = of_char c - 48"

text \<open>
  An array index as a property name: the decimal numeral of a natural number, without
  leading zeros.
\<close>

definition arrayIndex :: "string \<Rightarrow> nat option" where
  "arrayIndex key =
     (if key \<noteq> [] \<and> list_all isDigit key \<and> (key = ''0'' \<or> hd key \<noteq> CHR ''0'')
      then Some (foldl (\<lambda>n c. 10 * n + digitValue c) 0 key)
      else None)"

text \<open>
  The property read \<open>x[key]\<close> on a value \<open>x\<close> that is not \<open>null\<close> and whose \<open>typeof\<close> is
  \<open>"object"\<close>. An array answers to its indices and to \<open>length\<close>. The source guards every
  read so that the receiver is such a value; on the other values the model answers
  \<open>undefined\<close>.
\<close>

fun getProp :: "json \<Rightarrow> string \<Rightarrow> json option" where
  "getProp (JObj kvs) key = map_of kvs key"
| "getProp (JArr xs) key =
     (case arrayIndex key of
        Some i \<Rightarrow> if i < length xs then Some (xs ! i) else None
      | None \<Rightarrow> if key = ''length'' then Some (JNum (of_nat (length xs))) else None)"
| "getProp _ key = None"

text \<open>\<open>Array.isArray(v)\<close> on the result of a property read, giving the elements.\<close>

fun asArray :: "json option \<Rightarrow> json list option" where
  "asArray (Some (JArr xs)) = Some xs"
| "asArray _ = None"

text \<open>\<open>v && typeof v === "object"\<close> on the result of a property read.\<close>

fun isObjectLike :: "json option \<Rightarrow> bool" where
  "isObjectLike None = False"
| "isObjectLike (Some v) = (truthy v \<and> typeofObject v)"

section \<open>ResponseParser\<close>

record TimeseriesPoint =
  date :: string
  pvalue :: real

record ChannelShare =
  channel :: string
  share :: real

text \<open>
  \<open>extractArray(raw, key)\<close>: the payload itself when it is an array; for an object the
  property \<open>key\<close>, then \<open>key\<close> inside the property \<open>data\<close>, then \<open>data\<close> inside the
  property \<open>key\<close>; \<open>null\<close> (here \<open>None\<close>) otherwise.
\<close>

definition extractArray :: "json \<Rightarrow> string \<Rightarrow> json list option" where
  "extractArray raw key =
     (if \<not> truthy raw then None
      else case raw of
        JArr xs \<Rightarrow> Some xs
      | JObj kvs \<Rightarrow>
          (let val = getProp raw key in
           case asArray val of
             Some xs \<Rightarrow> Some xs
           | None \<Rightarrow>
               (let nestedData = getProp raw ''data'' in
                case (if isObjectLike nestedData
                      then asArray (getProp (the nestedData) key) else None) of
                  Some ys \<Rightarrow> Some ys
                | None \<Rightarrow>
                    if isObjectLike val then asArray (getProp (the val) ''data'')
                    else None))
      | _ \<Rightarrow> None)"

text \<open>
  \<open>pointSchema = z.object({ date: z.string(), value: z.number().nullable() })\<close>:
  the element is an object (not an array, not \<open>null\<close>) whose \<open>date\<close> is a string and
  whose \<open>value\<close> is a number or \<open>null\<close>. A parsed point keeps \<open>None\<close> for \<open>null\<close>.
\<close>

fun parsePoint :: "json \<Rightarrow> (string \<times> real option) option" where
  "parsePoint (JObj kvs) =
     (case map_of kvs ''date'' of
        Some (JStr d) \<Rightarrow>
          (case map_of kvs ''value'' of
             Some (JNum v) \<Rightarrow> Some (d, Some v)
           | Some JNull \<Rightarrow> Some (d, None)
           | _ \<Rightarrow> None)
      | _ \<Rightarrow> None)"
| "parsePoint _ = None"

text \<open>\<open>z.array(schema).safeParse(xs)\<close> succeeds when every element parses.\<close>

fun parseAll :: "('a \<Rightarrow> 'b option) \<Rightarrow> 'a list \<Rightarrow> 'b list option" where
  "parseAll p [] = Some []"
| "parseAll p (x # xs) =
     (case p x of
        None \<Rightarrow> None
      | Some y \<Rightarrow> (case parseAll p xs of None \<Rightarrow> None | Some ys \<Rightarrow> Some (y # ys)))"

text \<open>The points whose value is a number, in order.\<close>

definition numericPoints :: "(string \<times> real option) list \<Rightarrow> TimeseriesPoint list" where
  "numericPoints parsed =
     List.map_filter
       (\<lambda>(d, v). case v of None \<Rightarrow> None | Some x \<Rightarrow> Some \<lparr>date = d, pvalue = x\<rparr>)
       parsed"

text \<open>The loop \<open>for (const key of keyList)\<close> of \<open>parseSeries\<close>.\<close>

fun parseSeriesKeys :: "json \<Rightarrow> string list \<Rightarrow> TimeseriesPoint list option" where
  "parseSeriesKeys raw [] = None"
| "parseSeriesKeys raw (key # rest) =
     (case extractArray raw key of
        None \<Rightarrow> parseSeriesKeys raw rest
      | Some candidate \<Rightarrow>
          (case parseAll parsePoint candidate of
             None \<Rightarrow> parseSeriesKeys raw rest
           | Some parsed \<Rightarrow>
               (let points = numericPoints parsed
                in if points \<noteq> [] then Some points else parseSeriesKeys raw rest)))"

definition parseSeries :: "json \<Rightarrow> string list \<Rightarrow> TimeseriesPoint list option" where
  "parseSeries raw keys = parseSeriesKeys raw (if keys \<noteq> [] then keys else [''data''])"

text \<open>
  \<open>channelItemSchema\<close>: an object whose \<open>channel\<close>, \<open>source\<close> and \<open>name\<close> are each a
  string or absent and whose \<open>share\<close> and \<open>value\<close> are each a number or absent. Any
  other value under one of the five names (\<open>null\<close> too) fails the parse.
\<close>

record ChannelItem =
  itemChannel :: "string option"
  itemSource :: "string option"
  itemName :: "string option"
  itemShare :: "real option"
  itemValue :: "real option"

fun optionalString :: "json option \<Rightarrow> string option option" where
  "optionalString None = Some None"
| "optionalString (Some (JStr s)) = Some (Some s)"
| "optionalString _ = None"

fun optionalNumber :: "json option \<Rightarrow> real option option" where
  "optionalNumber None = Some None"
| "optionalNumber (Some (JNum x)) = Some (Some x)"
| "optionalNumber _ = None"

fun parseChannelItem :: "json \<Rightarrow> ChannelItem option" where
  "parseChannelItem (JObj kvs) =
     (case (optionalString (map_of kvs ''channel''), optionalString (map_of kvs ''source''),
            optionalString (map_of kvs ''name''), optionalNumber (map_of kvs ''share''),
            optionalNumber (map_of kvs ''value'')) of
        (Some c, Some s, Some n, Some sh, Some v) \<Rightarrow>
          Some \<lparr>itemChannel = c, itemSource = s, itemName = n, itemShare = sh, itemValue = v\<rparr>
      | _ \<Rightarrow> None)"
| "parseChannelItem _ = None"

text \<open>\<open>a || b\<close> on two optional strings: the first when it is a non-empty string.\<close>

definition orString :: "string option \<Rightarrow> string option \<Rightarrow> string option" where
  "orString a b = (case a of Some s \<Rightarrow> if s \<noteq> [] then Some s else b | None \<Rightarrow> b)"

text \<open>\<open>a ?? b\<close> on two optional numbers.\<close>

definition coalesce :: "real option \<Rightarrow> real option \<Rightarrow> real option" where
  "coalesce a b = (case a of Some x \<Rightarrow> Some x | None \<Rightarrow> b)"

text \<open>The callback of \<open>parsed.data.map\<close>: \<open>None\<close> is the \<open>null\<close> that the filter drops.\<close>

definition channelOfItem :: "ChannelItem \<Rightarrow> ChannelShare option" where
  "channelOfItem item =
     (let label = orString (itemChannel item) (orString (itemSource item) (itemName item));
          sh = coalesce (itemShare item) (itemValue item)
      in case label of
           None \<Rightarrow> None
         | Some l \<Rightarrow>
             if l = [] then None
             else (case sh of
                     None \<Rightarrow> None
                   | Some x \<Rightarrow> Some \<lparr>channel = l, share = normalizeShare x\<rparr>))"

text \<open>The callback over \<open>Object.entries(data)\<close>.\<close>

definition channelOfEntry :: "string \<times> json \<Rightarrow> ChannelShare option" where
  "channelOfEntry kv =
     (case snd kv of
        JNum x \<Rightarrow> Some \<lparr>channel = fst kv, share = normalizeShare x\<rparr>
      | _ \<Rightarrow> None)"

definition parseChannels :: "json \<Rightarrow> ChannelShare list option" where
  "parseChannels raw =
     (if \<not> truthy raw \<or> \<not> typeofObject raw then None
      else
        let data = (case getProp raw ''data'' of
                      None \<Rightarrow> raw
                    | Some JNull \<Rightarrow> raw
                    | Some d \<Rightarrow> d)
        in case data of
             JArr items \<Rightarrow>
               (case parseAll parseChannelItem items of
                  None \<Rightarrow> None
                | Some parsed \<Rightarrow>
                    (let channels = List.map_filter channelOfItem parsed
                     in if channels \<noteq> [] then Some channels else None))
           | JObj kvs \<Rightarrow>
               (let entries = List.map_filter channelOfEntry kvs
                in if entries \<noteq> [] then Some entries else None)
           | _ \<Rightarrow> None)"

text \<open>
  \<open>latestValue\<close> sorts a copy of the series with the comparator
  \<open>(a, b) => a.date.localeCompare(b.date)\<close> and takes the value of the last point.
  \<open>localeCompare\<close> is the collation of the JavaScript engine (ICU), not code of the
  program: it is a parameter here, a function that returns a negative number, zero or
  a positive number. \<open>Array.prototype.sort\<close> is stable; the model sorts by insertion,
  and every stable sort returns the same list for a comparator that is consistent.
\<close>

fun insertBy :: "('a \<Rightarrow> 'a \<Rightarrow> int) \<Rightarrow> 'a \<Rightarrow> 'a list \<Rightarrow> 'a list" where
  "insertBy cmp x [] = [x]"
| "insertBy cmp x (y # ys) = (if cmp x y \<le> 0 then x # y # ys else y # insertBy cmp x ys)"

definition sortBy :: "('a \<Rightarrow> 'a \<Rightarrow> int) \<Rightarrow> 'a list \<Rightarrow> 'a list" where
  "sortBy cmp xs = foldr (insertBy cmp) xs []"

definition latestValue ::
  "(string \<Rightarrow> string \<Rightarrow> int) \<Rightarrow> TimeseriesPoint list \<Rightarrow> real option" where
  "latestValue localeCompare series =
     (if series = [] then None
      else Some (pvalue (last (sortBy (\<lambda>a b. localeCompare (date a) (date b)) series))))"

text \<open>
  The comparison by character codes. On date labels (digits and hyphens in one fixed
  layout, \<open>2024-01\<close> or \<open>2024-01-15\<close>) \<open>localeCompare\<close> orders as this comparison
  does; on other strings it need not (it puts \<open>a\<close> before \<open>B\<close>).
\<close>

definition compareCodes :: "string \<Rightarrow> string \<Rightarrow> int" where
  "compareCodes a b = (if a < b then - 1 else if a = b then 0 else 1)"

text \<open>
  The numbers that occur in a payload, at any depth. The function is not part of the
  program; it serves to say where a parsed share comes from.
\<close>

fun jsonNumbers :: "json \<Rightarrow> real set" where
  "jsonNumbers (JNum x) = {x}"
| "jsonNumbers (JArr xs) = (\<Union>x \<in> set xs. jsonNumbers x)"
| "jsonNumbers (JObj kvs) = (\<Union>kv \<in> set kvs. jsonNumbers (snd kv))"
| "jsonNumbers _ = {}"

text \<open>
  The extraction order in the words of the specification: the payload itself when it
  is a sequence; for a keyed structure the first sequence among the candidate key at
  the top level, the candidate key inside the \<open>data\<close> field, and the \<open>data\<close> field
  inside the candidate key; not found otherwise.
\<close>

fun firstFound :: "'a option list \<Rightarrow> 'a option" where
  "firstFound [] = None"
| "firstFound (None # rest) = firstFound rest"
| "firstFound (Some x # rest) = Some x"

fun lookupIn :: "json option \<Rightarrow> string \<Rightarrow> json option" where
  "lookupIn None key = None"
| "lookupIn (Some v) key = getProp v key"

definition extractArray_spec :: "json \<Rightarrow> string \<Rightarrow> json list option" where
  "extractArray_spec raw key =
     (case raw of
        JArr xs \<Rightarrow> Some xs
      | JObj kvs \<Rightarrow>
          firstFound
            [asArray (getProp raw key),
             asArray (lookupIn (getProp raw ''data'') key),
             asArray (lookupIn (getProp raw key) ''data'')]
      | _ \<Rightarrow> None)"

section \<open>InsightsAggregator\<close>

text \<open>
  \<open>fetchSimilarwebInsights\<close> starts five requests and awaits
  \<open>Promise.allSettled\<close>; everything after that line is a function of the five settled
  outcomes, taken in the order of the keys of \<open>tasks\<close>. The model starts there: a
  settled outcome is a rejection or the payload the request was fulfilled with. The
  first argument is the \<open>localeCompare\<close> that \<open>latestValue\<close> sorts with.
\<close>

datatype settled = Rejected | Fulfilled json

datatype taskKey = Visits | BounceRate | PagesPerVisit | AvgDuration | Channels

fun keyName :: "taskKey \<Rightarrow> string" where
  "keyName Visits = ''visits''"
| "keyName BounceRate = ''bounceRate''"
| "keyName PagesPerVisit = ''pagesPerVisit''"
| "keyName AvgDuration = ''avgDuration''"
| "keyName Channels = ''channels''"

fun seriesKeyMap :: "taskKey \<Rightarrow> string list" where
  "seriesKeyMap Visits = [''visits'', ''data'']"
| "seriesKeyMap BounceRate = [''bounce_rate'', ''bounceRate'', ''data'']"
| "seriesKeyMap PagesPerVisit = [''pages_per_visit'', ''pagesPerVisit'', ''data'']"
| "seriesKeyMap AvgDuration = [''average_visit_duration'', ''avgDuration'', ''data'']"
| "seriesKeyMap Channels = []"

record Timeseries =
  visits :: "TimeseriesPoint list"
  bounceRate :: "TimeseriesPoint list"
  pagesPerVisit :: "TimeseriesPoint list"
  avgDuration :: "TimeseriesPoint list"

record Summary =
  latestVisits :: "real option"
  latestBounceRate :: "real option"
  latestPagesPerVisit :: "real option"
  latestAvgDurationSeconds :: "real option"

record Meta =
  partial :: bool
  metaNotes :: "string list"

record InsightsData =
  summary :: Summary
  timeseries :: Timeseries
  channels :: "ChannelShare list"
  meta :: Meta

text \<open>The three variables the \<open>forEach\<close> callback updates.\<close>

record Collected =
  cNotes :: "string list"
  cTimeseries :: Timeseries
  cChannels :: "ChannelShare list"

definition setSeries :: "taskKey \<Rightarrow> TimeseriesPoint list \<Rightarrow> Timeseries \<Rightarrow> Timeseries" where
  "setSeries key parsedSeries ts =
     (case key of
        Visits \<Rightarrow> ts\<lparr>visits := parsedSeries\<rparr>
      | BounceRate \<Rightarrow> ts\<lparr>bounceRate := parsedSeries\<rparr>
      | PagesPerVisit \<Rightarrow> ts\<lparr>pagesPerVisit := parsedSeries\<rparr>
      | AvgDuration \<Rightarrow> ts\<lparr>avgDuration := parsedSeries\<rparr>
      | Channels \<Rightarrow> ts)"

text \<open>
  One call of the \<open>forEach\<close> callback. The comparator \<open>(a, b) => b.share - a.share\<close>
  of the stable \<open>sort\<close> orders by descending share: the difference of two doubles has
  the sign of their comparison.
\<close>

definition collect :: "Collected \<Rightarrow> taskKey \<times> settled \<Rightarrow> Collected" where
  "collect acc kr =
     (let key = fst kr in
      case snd kr of
        Rejected \<Rightarrow> acc\<lparr>cNotes := cNotes acc @ [keyName key @ '' data unavailable.'']\<rparr>
      | Fulfilled raw \<Rightarrow>
          if key = Channels then
            (case parseChannels raw of
               None \<Rightarrow> acc\<lparr>cNotes := cNotes acc @ [''channels data unavailable.'']\<rparr>
             | Some parsed \<Rightarrow> acc\<lparr>cChannels := sort_key (\<lambda>c. - share c) parsed\<rparr>)
          else
            (case parseSeries raw (seriesKeyMap key) of
               None \<Rightarrow> acc\<lparr>cNotes := cNotes acc @ [keyName key @ '' data unavailable.'']\<rparr>
             | Some parsedSeries \<Rightarrow>
                 acc\<lparr>cTimeseries := setSeries key parsedSeries (cTimeseries acc)\<rparr>))"

definition emptyTimeseries :: Timeseries where
  "emptyTimeseries = \<lparr>visits = [], bounceRate = [], pagesPerVisit = [], avgDuration = []\<rparr>"

definition fetchSimilarwebInsights ::
  "(string \<Rightarrow> string \<Rightarrow> int) \<Rightarrow>
   settled \<Rightarrow> settled \<Rightarrow> settled \<Rightarrow> settled \<Rightarrow> settled \<Rightarrow> InsightsData" where
  "fetchSimilarwebInsights localeCompare
     rVisits rBounceRate rPagesPerVisit rAvgDuration rChannels =
     (let results = [rVisits, rBounceRate, rPagesPerVisit, rAvgDuration, rChannels];
          keys = [Visits, BounceRate, PagesPerVisit, AvgDuration, Channels];
          acc = foldl collect
                  \<lparr>cNotes = [], cTimeseries = emptyTimeseries, cChannels = []\<rparr>
                  (zip keys results);
          ts = cTimeseries acc
      in \<lparr>summary =
            \<lparr>latestVisits = latestValue localeCompare (visits ts),
             latestBounceRate = latestValue localeCompare (bounceRate ts),
             latestPagesPerVisit = latestValue localeCompare (pagesPerVisit ts),
             latestAvgDurationSeconds = latestValue localeCompare (avgDuration ts)\<rparr>,
          timeseries = ts,
          channels = cChannels acc,
          meta =
            \<lparr>partial =
               (length (cNotes acc) > 0 \<or>
                (length (visits ts) = 0 \<and> length (bounceRate ts) = 0 \<and>
                 length (pagesPerVisit ts) = 0 \<and> length (avgDuration ts) = 0 \<and>
                 length (cChannels acc) = 0)),
             metaNotes = cNotes acc\<rparr>\<rparr>)"

text \<open>
  What one settled outcome contributes to the result: its series or channel list, and
  the note it adds, if any. These three functions are not part of the program; they
  state the result of the \<open>forEach\<close> loop in closed form.
\<close>

fun seriesFor :: "taskKey \<Rightarrow> settled \<Rightarrow> TimeseriesPoint list" where
  "seriesFor key Rejected = []"
| "seriesFor key (Fulfilled raw) =
     (case parseSeries raw (seriesKeyMap key) of None \<Rightarrow> [] | Some ps \<Rightarrow> ps)"

fun channelsFor :: "settled \<Rightarrow> ChannelShare list" where
  "channelsFor Rejected = []"
| "channelsFor (Fulfilled raw) =
     (case parseChannels raw of None \<Rightarrow> [] | Some cs \<Rightarrow> sort_key (\<lambda>c. - share c) cs)"

fun noteFor :: "taskKey \<Rightarrow> settled \<Rightarrow> string list" where
  "noteFor key Rejected = [keyName key @ '' data unavailable.'']"
| "noteFor key (Fulfilled raw) =
     (if key = Channels
      then (case parseChannels raw of
              None \<Rightarrow> [''channels data unavailable.'']
            | Some cs \<Rightarrow> [])
      else (case parseSeries raw (seriesKeyMap key) of
              None \<Rightarrow> [keyName key @ '' data unavailable.'']
            | Some ps \<Rightarrow> []))"

section \<open>The monthly range\<close>






text \<open>The decimal digit of a number below 10.\<close>

definition digitChar :: "nat \<Rightarrow> char" where
  "digitChar n = ''0123456789'' ! n"

text \<open>\<open>String(n)\<close> for a natural number and for an integer.\<close>

fun showNat :: "nat \<Rightarrow> string" where
  "showNat n = (if n < 10 then [digitChar n] else showNat (n div 10) @ [digitChar (n mod 10)])"


text \<open>\<open>s.padStart(2, "0")\<close>.\<close>

definition padStart2 :: "string \<Rightarrow> string" where
  "padStart2 s = replicate (2 - length s) CHR ''0'' @ s"






section \<open>DomainNormalizer: \<open>src/lib/domain.ts\<close>\<close>

subsection \<open>Strings\<close>

text \<open>
  A JavaScript string is a sequence of UTF-16 code units, here a list of numbers;
  \<open>js\<close> turns a literal of the program into one. The error messages stay literals.
\<close>

type_synonym jsString = "nat list"

definition js :: "string \<Rightarrow> jsString" where
  "js s = map of_char s"

definition isAscii :: "nat \<Rightarrow> bool" where
  "isAscii c = (c < 128)"

text \<open>
  \<open>String.prototype.trim\<close> removes white space and line terminators from both ends:
  TAB, LF, VT, FF, CR, SP, NBSP, the other space separators of Unicode, LS, PS and
  the byte order mark.
\<close>

definition whiteSpaceCodes :: "nat list" where
  "whiteSpaceCodes =
     [9, 10, 11, 12, 13, 32, 160, 5760, 8192, 8193, 8194, 8195, 8196, 8197, 8198, 8199,
      8200, 8201, 8202, 8232, 8233, 8239, 8287, 12288, 65279]"

definition isWhiteSpace :: "nat \<Rightarrow> bool" where
  "isWhiteSpace c = (c \<in> set whiteSpaceCodes)"

definition trim :: "jsString \<Rightarrow> jsString" where
  "trim s = rev (dropWhile isWhiteSpace (rev (dropWhile isWhiteSpace s)))"

definition isUpper :: "nat \<Rightarrow> bool" where
  "isUpper c = (65 \<le> c \<and> c \<le> 90)"

definition isLower :: "nat \<Rightarrow> bool" where
  "isLower c = (97 \<le> c \<and> c \<le> 122)"

text \<open>
  The class \<open>[a-z]\<close> under the flag \<open>i\<close> (without the flag \<open>u\<close>) matches the 52 ASCII
  letters and no other code unit.
\<close>

definition isAlpha :: "nat \<Rightarrow> bool" where
  "isAlpha c = (isLower c \<or> isUpper c)"

definition isDecimal :: "nat \<Rightarrow> bool" where
  "isDecimal c = (48 \<le> c \<and> c \<le> 57)"

definition asciiLower :: "nat \<Rightarrow> nat" where
  "asciiLower c = (if isUpper c then c + 32 else c)"

text \<open>
  \<open>String.prototype.toLowerCase\<close> maps the letters \<open>A\<close> to \<open>Z\<close> of an ASCII string to
  \<open>a\<close> to \<open>z\<close>. On a string with other characters it follows the case mappings of
  Unicode, which are a parameter.
\<close>

definition toLowerCase :: "(jsString \<Rightarrow> jsString) \<Rightarrow> jsString \<Rightarrow> jsString" where
  "toLowerCase unicodeLowerCase s =
     (if list_all isAscii s then map asciiLower s else unicodeLowerCase s)"

text \<open>\<open>s.split(".")\<close>: the labels of a hostname.\<close>

fun splitDots :: "jsString \<Rightarrow> jsString list" where
  "splitDots [] = [[]]"
| "splitDots (c # cs) =
     (if c = 46 then [] # splitDots cs
      else (case splitDots cs of l # ls \<Rightarrow> (c # l) # ls | [] \<Rightarrow> [[c]]))"

text \<open>The test \<open>/^[a-z]+:\/\//i\<close>: one or more letters, then \<open>://\<close>.\<close>

definition hasScheme :: "jsString \<Rightarrow> bool" where
  "hasScheme s = (takeWhile isAlpha s \<noteq> [] \<and> prefix (js ''://'') (dropWhile isAlpha s))"

subsection \<open>The library functions\<close>

text \<open>
  The program calls three functions of libraries and one of the language that are no
  code of the repository; they are parameters of the model:
  \<^item> \<open>urlHostname s\<close> is \<open>new URL(s).hostname\<close>, \<open>None\<close> when the constructor throws;
  \<^item> \<open>isIP s\<close> is \<open>isIP\<close> of \<open>node:net\<close>: 0, 4 or 6;
  \<^item> \<open>toASCII s\<close> is \<open>punycode.toASCII(s)\<close>, \<open>None\<close> when its encoder throws a
    \<open>RangeError\<close>;
  \<^item> \<open>unicodeLowerCase s\<close> is \<open>s.toLowerCase()\<close> for a string \<open>s\<close> that is not ASCII.
\<close>

record library =
  urlHostname :: "jsString \<Rightarrow> jsString option"
  isIP :: "jsString \<Rightarrow> nat"
  toASCII :: "jsString \<Rightarrow> jsString option"
  unicodeLowerCase :: "jsString \<Rightarrow> jsString"

subsection \<open>The normalizer\<close>

text \<open>
  \<open>hostnameRegex\<close>:
  \<^verbatim>\<open>/^(?=.{1,253}$)(?!-)[a-z0-9-]{1,63}(?<!-)(\.(?!-)[a-z0-9-]{1,63}(?<!-))*$/i\<close>,
  that is 1 to 253 code units, split by dots into labels of 1 to 63 letters, digits
  and hyphens that neither start nor end with a hyphen.
\<close>

definition validLabel :: "jsString \<Rightarrow> bool" where
  "validLabel l =
     (1 \<le> length l \<and> length l \<le> 63 \<and>
      list_all (\<lambda>c. isAlpha c \<or> isDecimal c \<or> c = 45) l \<and>
      hd l \<noteq> 45 \<and> last l \<noteq> 45)"

definition hostnameRegex :: "jsString \<Rightarrow> bool" where
  "hostnameRegex s = (1 \<le> length s \<and> length s \<le> 253 \<and> list_all validLabel (splitDots s))"

definition blockedHostnames :: "jsString list" where
  "blockedHostnames = [js ''localhost'', js ''local'', js ''internal'']"

text \<open>\<open>replace(/^www\./, "")\<close> and \<open>replace(/\.$/, "")\<close>.\<close>

definition stripWww :: "jsString \<Rightarrow> jsString" where
  "stripWww s = (if prefix (js ''www.'') s then drop 4 s else s)"

definition stripTrailingDot :: "jsString \<Rightarrow> jsString" where
  "stripTrailingDot s = (if s \<noteq> [] \<and> last s = 46 then butlast s else s)"

text \<open>
  The result: \<open>{ ok: true, domain }\<close>, \<open>{ ok: false, error }\<close>, or the exception of
  \<open>punycode.toASCII\<close>, which is called outside the \<open>try\<close> block and so leaves
  \<open>normalizeDomain\<close> uncaught.
\<close>

datatype NormalizeResult = Ok jsString | Error string | Uncaught

definition normalizeDomain :: "library \<Rightarrow> jsString \<Rightarrow> NormalizeResult" where
  "normalizeDomain lib input =
     (let trimmed = trim input
      in if trimmed = [] then Error ''Please enter a URL or domain.''
         else
           case urlHostname lib (if hasScheme trimmed then trimmed
                                 else js ''https://'' @ trimmed) of
             None \<Rightarrow> Error ''That doesn't look like a valid URL.''
           | Some hostname \<Rightarrow>
               (let normalized =
                      stripTrailingDot (stripWww (toLowerCase (unicodeLowerCase lib) hostname))
                in if normalized = [] then Error ''Please enter a valid domain.''
                   else if normalized \<in> set blockedHostnames \<or>
                           suffix (js ''.localhost'') normalized
                   then Error ''Localhost domains are not supported.''
                   else if isIP lib normalized \<noteq> 0
                   then Error ''IP addresses are not supported.''
                   else
                     (case toASCII lib normalized of
                        None \<Rightarrow> Uncaught
                      | Some ascii \<Rightarrow>
                          if \<not> hostnameRegex ascii \<or> 46 \<notin> set ascii
                          then Error ''Please enter a public domain name.''
                          else Ok ascii)))"

subsection \<open>What the theorems take from the libraries\<close>

text \<open>
  The special schemes of the WHATWG URL Standard, and the test that a string starts
  with one of them and \<open>://\<close>.
\<close>

definition specialSchemes :: "jsString list" where
  "specialSchemes = [js ''http'', js ''https'', js ''ws'', js ''wss'', js ''ftp'', js ''file'']"



text \<open>
  The answers of the libraries at the URLs and hostnames of the examples below:
  \<open>new URL(s).hostname\<close> at eleven URLs, among them one with a port, one whose host
  has the letter u with diaeresis (code unit 252), which the URL parser encodes as
  \<open>xn--bcher-kva\<close>, and one with a scheme that is not special, whose host the parser
  leaves as it is. The constructor throws at \<open>https://a.123\<close>, whose host ends in a
  number and is no IPv4 address; the table has no entry for it, nor for any other URL.
  No hostname among them is an IP address, and \<open>punycode.toASCII\<close> is the identity
  on these ASCII hostnames.
\<close>

definition exampleUrls :: "(jsString \<times> jsString) list" where
  "exampleUrls =
     [(js ''https://www.Example.com/path'', js ''www.example.com''),
      (js ''https://example.com'', js ''example.com''),
      (js ''https://www.www.example.com'', js ''www.www.example.com''),
      (js ''https://www.example.com'', js ''www.example.com''),
      (js ''https://www.www.com'', js ''www.www.com''),
      (js ''https://www.com'', js ''www.com''),
      (js ''https://com'', js ''com''),
      (js ''https://example.com:8080'', js ''example.com''),
      (js ''https://www.b'' @ 252 # js ''cher.de'', js ''www.xn--bcher-kva.de''),
      (js ''https://xn--bcher-kva.de'', js ''xn--bcher-kva.de''),
      (js ''foo://a.123'', js ''a.123'')]"

definition exampleLibrary :: library where
  "exampleLibrary =
     \<lparr>urlHostname = map_of exampleUrls,
      isIP = (\<lambda>s. 0),
      toASCII = (\<lambda>s. Some s),
      unicodeLowerCase = (\<lambda>s. s)\<rparr>"

section \<open>Properties of the rounding\<close>

lemma roundTiesToEven_floor_le: "\<lfloor>q\<rfloor> \<le> roundTiesToEven q"
  by (simp add: roundTiesToEven_def Let_def)

lemma roundTiesToEven_le_ceiling: "roundTiesToEven q \<le> \<lceil>q\<rceil>"
  unfolding roundTiesToEven_def Let_def
  by (auto simp: ceiling_altdef)

lemma roundTiesToEven_error: "\<bar>q - of_int (roundTiesToEven q)\<bar> \<le> 1 / 2"
  unfolding roundTiesToEven_def Let_def
  by (auto; linarith)

lemma roundTiesToEven_nearest:
  assumes "\<bar>q - of_int n\<bar> < 1 / 2"
  shows "roundTiesToEven q = n"
proof -
  have "\<bar>q - of_int (roundTiesToEven q)\<bar> \<le> 1 / 2"
    by (rule roundTiesToEven_error)
  with assms have "\<bar>real_of_int (roundTiesToEven q) - of_int n\<bar> < 1"
    by linarith
  then have "\<bar>roundTiesToEven q - n\<bar> < 1"
    by (metis of_int_diff of_int_abs of_int_less_1_iff)
  then show ?thesis by linarith
qed

lemma roundTiesToEven_of_int [simp]: "roundTiesToEven (of_int n) = n"
  by (rule roundTiesToEven_nearest) simp

lemma ilog2_bounds:
  assumes "0 < a"
  shows "2 powi (ilog2 a) \<le> a \<and> a < 2 powi (ilog2 a + 1)"
proof (cases "1 \<le> a")
  case True
  define n where "n = \<lfloor>a\<rfloor>"
  have n: "0 < n" "of_int n \<le> a" "a < of_int n + 1"
    using True unfolding n_def by (simp, linarith, linarith)
  have e: "ilog2 a = bitlen n - 1"
    using True by (simp add: ilog2_def n_def)
  have b: "2 ^ nat (bitlen n - 1) \<le> n" "n < 2 ^ nat (bitlen n)"
    using bitlen_bounds [OF n(1)] by auto
  have pos: "1 \<le> bitlen n"
    using n(1) by (simp add: bitlen_alt_def)
  have "2 powi (ilog2 a) = (2::real) ^ nat (bitlen n - 1)"
    using pos by (simp add: e power_int_def)
  moreover have "(2::real) ^ nat (bitlen n - 1) \<le> of_int n"
    using b(1) by simp
  ultimately have lo: "2 powi (ilog2 a) \<le> a" using n(2) by linarith
  have "n + 1 \<le> 2 ^ nat (bitlen n)" using b(2) by linarith
  then have "real_of_int (n + 1) \<le> 2 ^ nat (bitlen n)"
    by (simp only: of_int_le_numeral_power_cancel_iff)
  moreover have "2 powi (ilog2 a + 1) = (2::real) ^ nat (bitlen n)"
    using pos by (simp add: e power_int_def)
  ultimately have "a < 2 powi (ilog2 a + 1)" using n(3) by simp
  with lo show ?thesis by simp
next
  case False
  define m where "m = \<lceil>1 / a\<rceil>"
  have inv: "1 < 1 / a" using False assms by simp
  have m: "1 < m" "1 / a \<le> of_int m" "of_int m - 1 < 1 / a"
    using inv unfolding m_def by (simp add: less_ceiling_iff, linarith, linarith)
  define k where "k = bitlen (m - 1)"
  have e: "ilog2 a = - k"
    using False by (simp add: ilog2_def m_def k_def)
  have b: "2 ^ nat (k - 1) \<le> m - 1" "m - 1 < 2 ^ nat k"
    using bitlen_bounds [of "m - 1"] m(1) by (auto simp: k_def)
  have pos: "1 \<le> k"
    using m(1) by (simp add: bitlen_alt_def k_def)
  have "m \<le> 2 ^ nat k" using b(2) by linarith
  then have "real_of_int m \<le> 2 ^ nat k"
    by (simp only: of_int_le_numeral_power_cancel_iff)
  then have "1 / a \<le> 2 ^ nat k" using m(2) by linarith
  then have "1 / 2 ^ nat k \<le> a"
    using assms by (simp add: field_simps)
  moreover have "(2::real) powi (ilog2 a) = 1 / 2 ^ nat k"
    using pos by (simp add: e power_int_def power_one_over)
  ultimately have lo: "2 powi (ilog2 a) \<le> a" by simp
  have "2 ^ nat (k - 1) \<le> real_of_int (m - 1)"
    using b(1) by (simp only: numeral_power_le_of_int_cancel_iff)
  then have "2 ^ nat (k - 1) < 1 / a" using m(3) by simp
  then have "a < 1 / 2 ^ nat (k - 1)"
    using assms by (simp add: field_simps)
  moreover have "(2::real) powi (ilog2 a + 1) = 1 / 2 ^ nat (k - 1)"
  proof -
    have "ilog2 a + 1 = - (k - 1)" by (simp add: e)
    then show ?thesis
      using pos by (simp only: power_int_minus_divide) (simp add: power_int_def)
  qed
  ultimately show ?thesis using lo by simp
qed

lemma powi2_less_D: "(2::real) powi e < 2 powi f \<Longrightarrow> e < f"
  using power_int_increasing [of f e "2::real"] by (cases "e < f") auto

lemma powi2_pos_le: "(2::real) powi e \<le> a \<Longrightarrow> 0 < a"
  using zero_less_power_int [of "2::real" e] by linarith

lemma ilog2_unique:
  assumes "2 powi e \<le> a" and "a < 2 powi (e + 1)"
  shows "ilog2 a = e"
proof -
  have pos: "0 < a"
    using assms(1) by (rule powi2_pos_le)
  note b = ilog2_bounds [OF pos]
  have "2 powi e < (2::real) powi (ilog2 a + 1)" using assms(1) b by linarith
  then have 1: "e < ilog2 a + 1"
    by (rule powi2_less_D)
  have "2 powi (ilog2 a) < (2::real) powi (e + 1)" using assms(2) b by linarith
  then have 2: "ilog2 a < e + 1"
    by (rule powi2_less_D)
  from 1 2 show ?thesis by linarith
qed


lemma f64_eqI:
  assumes e: "2 powi e \<le> \<bar>x\<bar>" "\<bar>x\<bar> < 2 powi (e + 1)" "- 1022 \<le> e"
    and n: "\<bar>x / 2 powi (e - 52) - of_int n\<bar> < 1 / 2"
  shows "f64 x = of_int n * 2 powi (e - 52)"
proof -
  have "0 < \<bar>x\<bar>"
    using e(1) by (rule powi2_pos_le)
  then have nz: "x \<noteq> 0" by simp
  have il: "ilog2 \<bar>x\<bar> = e" using e(1,2) by (rule ilog2_unique)
  have mx: "max e (- 1022) = e" using e(3) by simp
  show ?thesis
    using nz by (simp add: f64_def il mx Let_def roundTiesToEven_nearest [OF n])
qed

lemma f64_pos_unfold:
  "0 < x \<Longrightarrow>
   f64 x = of_int (roundTiesToEven (x / 2 powi (max (ilog2 x) (- 1022) - 52))) *
           2 powi (max (ilog2 x) (- 1022) - 52)"
  by (simp add: f64_def Let_def)

lemma f64_nonneg:
  assumes "0 \<le> x"
  shows "0 \<le> f64 x"
proof (cases "x = 0")
  case True
  then show ?thesis by (simp add: f64_def)
next
  case False
  define u :: real where "u = 2 powi (max (ilog2 \<bar>x\<bar>) (- 1022) - 52)"
  have u: "0 < u" by (simp add: u_def)
  have "0 \<le> x / u" using assms u by simp
  then have "0 \<le> \<lfloor>x / u\<rfloor>" by simp
  then have "0 \<le> roundTiesToEven (x / u)"
    using roundTiesToEven_floor_le [of "x / u"] by linarith
  then show ?thesis
    using False u by (simp add: f64_def Let_def u_def [symmetric])
qed

lemma f64_le_one:
  assumes "0 < x" and "x \<le> 1"
  shows "f64 x \<le> 1"
proof -
  define e where "e = max (ilog2 x) (- 1022)"
  define u :: real where "u = 2 powi (e - 52)"
  have u: "0 < u" by (simp add: u_def)
  have "2 powi (ilog2 x) \<le> x" using ilog2_bounds [OF assms(1)] by simp
  then have "(2::real) powi (ilog2 x) < 2 powi 1" using assms(2) by simp
  then have "ilog2 x < 1" by (rule powi2_less_D)
  then have e0: "e \<le> 0" using assms(1) by (simp add: e_def)
  define N :: int where "N = 2 ^ nat (52 - e)"
  have "(2::real) powi (52 - e) = of_int N"
    using e0 by (simp add: N_def power_int_def)
  moreover have "(2::real) powi (52 - e) * u = 1"
    unfolding u_def by (simp flip: power_int_add)
  ultimately have Nu: "of_int N * u = 1" by simp
  then have "x / u = x * of_int N"
    using u by (simp add: field_simps)
  also have "\<dots> \<le> of_int N"
    using assms N_def by (simp add: mult_le_cancel_right1)
  finally have "\<lceil>x / u\<rceil> \<le> N" by (simp add: ceiling_le_iff)
  then have "roundTiesToEven (x / u) \<le> N"
    using roundTiesToEven_le_ceiling [of "x / u"] by linarith
  then have "real_of_int (roundTiesToEven (x / u)) * u \<le> of_int N * u"
    using u by (simp add: mult_le_cancel_right)
  then show ?thesis
    using Nu by (simp add: f64_pos_unfold [OF assms(1)] e_def [symmetric] u_def [symmetric])
qed

lemma f64_error:
  assumes "2 powi (- 1022) \<le> x"
  shows "\<bar>f64 x - x\<bar> \<le> x / 2 ^ 53"
proof -
  have pos: "0 < x"
    using assms by (rule powi2_pos_le)
  define e where "e = ilog2 x"
  have b: "2 powi e \<le> x" "x < 2 powi (e + 1)"
    using ilog2_bounds [OF pos] by (simp_all add: e_def)
  have "(2::real) powi (- 1022) < 2 powi (e + 1)" using assms b(2) by linarith
  then have "- 1022 < e + 1" by (rule powi2_less_D)
  then have mx: "max (ilog2 x) (- 1022) = e" by (simp add: e_def)
  define u :: real where "u = 2 powi (e - 52)"
  have u: "0 < u" by (simp add: u_def)
  have fx: "f64 x = of_int (roundTiesToEven (x / u)) * u"
    by (simp add: f64_pos_unfold [OF pos] mx u_def)
  have "f64 x - x = (of_int (roundTiesToEven (x / u)) - x / u) * u"
    using u by (simp add: fx left_diff_distrib)
  then have "\<bar>f64 x - x\<bar> = \<bar>of_int (roundTiesToEven (x / u)) - x / u\<bar> * u"
    using u by (simp add: abs_mult)
  also have "\<dots> \<le> (1 / 2) * u"
    using roundTiesToEven_error [of "x / u"] u
    by (intro mult_right_mono) (simp_all add: abs_minus_commute)
  also have "(1 / 2) * u = 2 powi e / 2 ^ 53"
    by (simp add: u_def power_int_diff)
  also have "\<dots> \<le> x / 2 ^ 53"
    using b(1) by (simp add: divide_right_mono)
  finally show ?thesis .
qed



text \<open>The doubles that the literals \<open>0.55\<close> and \<open>0.2\<close> denote, and one product.\<close>

lemma f64_literal_0_55: "f64 (55 / 100) = 4953959590107546 / 2 ^ 53"
  using f64_eqI [of "- 1" "55 / 100" 4953959590107546] by simp

lemma f64_0_55_times_100: "f64 (4953959590107546 / 2 ^ 53 * 100) = 55 + 1 / 2 ^ 47"
  using f64_eqI [of 5 "4953959590107546 / 2 ^ 53 * 100" 7740561859543041] by simp

lemma f64_literal_0_2: "f64 (2 / 10) = 7205759403792794 / 2 ^ 55"
  using f64_eqI [of "- 3" "2 / 10" 7205759403792794] by simp


lemma f64_5_2: "f64 (250 / 100) = 5 / 2"
  using f64_eqI [of 1 "250 / 100" 5629499534213120] by simp

section \<open>Share normalization\<close>

lemma normalizeShare_range:
  assumes "0 \<le> v" and "v \<le> 100"
  shows "0 \<le> normalizeShare v \<and> normalizeShare v \<le> 1"
proof (cases "1 < v")
  case True
  then have "0 < v / 100" "v / 100 \<le> 1" using assms by simp_all
  then have "0 \<le> f64 (v / 100)" "f64 (v / 100) \<le> 1"
    by (simp_all add: f64_nonneg f64_le_one)
  with True show ?thesis by (simp add: normalizeShare_def)
next
  case False
  with assms show ?thesis by (simp add: normalizeShare_def)
qed

text \<open>
  Claim C7. \<open>normalizeShare\<close> divides by 100 exactly when its argument is greater
  than 1 and returns every other argument unchanged; \<open>normalizeShare(55)\<close> is the
  number the literal \<open>0.55\<close> denotes (the double nearest to 55/100, which is
  \<open>4953959590107546 / 2\<^sup>5\<^sup>3\<close>), and \<open>normalizeShare(0.2) = 0.2\<close>.
\<close>

theorem normalizeShare_threshold:
  "(1 < v \<longrightarrow> normalizeShare v = f64 (v / 100)) \<and>
   (v \<le> 1 \<longrightarrow> normalizeShare v = v) \<and>
   normalizeShare 55 = f64 (55 / 100) \<and>
   f64 (55 / 100) = 4953959590107546 / 2 ^ 53 \<and>
   normalizeShare (f64 (2 / 10)) = f64 (2 / 10)"
proof -
  have "f64 (2 / 10) \<le> 1" by (simp only: f64_literal_0_2) simp
  then have "normalizeShare (f64 (2 / 10)) = f64 (2 / 10)"
    by (simp add: normalizeShare_def)
  moreover have "normalizeShare 55 = f64 (55 / 100)"
    by (simp add: normalizeShare_def)
  ultimately show ?thesis
    using f64_literal_0_55 by (simp add: normalizeShare_def)
qed

theorem normalizeShare_threshold_witness:
  "(1::real) < 55 \<and> normalizeShare 55 = f64 (55 / 100) \<and>
   (2 / 10 :: real) \<le> 1 \<and> normalizeShare (2 / 10) = 2 / 10"
  using normalizeShare_threshold [of 55] normalizeShare_threshold [of "2 / 10"]
  by simp

text \<open>
  Claim C10. For \<open>1 < v \<le> 100\<close> the parse stage divides \<open>v\<close> by 100 once and the
  display stage, finding a share not above 1, multiplies it by 100 once: no value is
  converted twice. Each of the two operations rounds, so the result is \<open>v\<close> up to two
  roundings, not always \<open>v\<close> itself: \<open>normalizePercent(normalizeShare(55))\<close> is
  \<open>55 + 2\<^sup>-\<^sup>4\<^sup>7\<close>, printed \<open>55.00000000000001\<close>.
\<close>

theorem normalizeShare_roundtrip_error:
  assumes "1 < v" and "v \<le> 100"
  shows "normalizePercent (Some (normalizeShare v)) = Some (f64 (f64 (v / 100) * 100)) \<and>
         \<bar>f64 (f64 (v / 100) * 100) - v\<bar> \<le> v / 2 ^ 52 + v / 2 ^ 106"
proof -
  define y where "y = f64 (v / 100)"
  have small: "(2::real) powi (- 1022) \<le> 1 / 2 ^ 8"
    by (simp add: power_int_minus_divide)
  have y1: "y \<le> 1" using assms by (simp add: y_def f64_le_one)
  have "2 powi (- 1022) \<le> v / 100" using small assms(1) by simp
  then have ey: "\<bar>y - v / 100\<bar> \<le> v / 100 / 2 ^ 53"
    unfolding y_def by (rule f64_error)
  then have e1: "\<bar>y * 100 - v\<bar> \<le> v / 2 ^ 53" by linarith
  have "v - v / 2 ^ 53 \<le> y * 100" using e1 by linarith
  moreover have "1 / 2 \<le> v - v / 2 ^ 53" using assms(1) by simp
  ultimately have "2 powi (- 1022) \<le> y * 100" using small by simp
  then have "\<bar>f64 (y * 100) - y * 100\<bar> \<le> y * 100 / 2 ^ 53"
    by (rule f64_error)
  moreover have "y * 100 / 2 ^ 53 \<le> (v + v / 2 ^ 53) / 2 ^ 53"
  proof (rule divide_right_mono)
    show "y * 100 \<le> v + v / 2 ^ 53" using e1 by linarith
  qed simp
  ultimately have "\<bar>f64 (y * 100) - v\<bar> \<le> v / 2 ^ 53 + (v + v / 2 ^ 53) / 2 ^ 53"
    using e1 by linarith
  also have "\<dots> = v / 2 ^ 52 + v / 2 ^ 106"
    by (simp add: field_simps)
  finally have err: "\<bar>f64 (y * 100) - v\<bar> \<le> v / 2 ^ 52 + v / 2 ^ 106" .
  have "normalizePercent (Some (normalizeShare v)) = Some (f64 (y * 100))"
    using assms(1) y1 by (simp add: normalizePercent_def normalizeShare_def y_def)
  with err show ?thesis by (simp add: y_def)
qed


theorem normalizeShare_roundtrip_error_witness:
  "(1::real) < 55 \<and> (55::real) \<le> 100 \<and>
   normalizePercent (Some (normalizeShare 55)) = Some (f64 (f64 (55 / 100) * 100)) \<and>
   \<bar>f64 (f64 (55 / 100) * 100) - 55\<bar> \<le> 55 / 2 ^ 52 + 55 / 2 ^ 106"
  using normalizeShare_roundtrip_error [of 55] by simp

theorem normalizePercent_normalizeShare_55:
  "normalizePercent (Some (normalizeShare 55)) = Some (55 + 1 / 2 ^ 47) \<and>
   (55 + 1 / 2 ^ 47 :: real) \<noteq> 55"
proof -
  have gt: "(1::real) < 55" by simp
  have le: "\<not> (1::real) < 4953959590107546 / 2 ^ 53" by simp
  have "normalizeShare 55 = f64 (55 / 100)"
    by (simp only: normalizeShare_def gt if_True)
  then have sh: "normalizeShare 55 = 4953959590107546 / 2 ^ 53"
    by (simp only: f64_literal_0_55)
  have "normalizePercent (Some (normalizeShare 55)) = Some (55 + 1 / 2 ^ 47)"
    by (simp only: sh normalizePercent_def option.case le if_False f64_0_55_times_100)
  then show ?thesis by simp
qed

section \<open>Channel parsing\<close>

lemma parseAll_member:
  "parseAll p xs = Some ys \<Longrightarrow> y \<in> set ys \<Longrightarrow> \<exists>x \<in> set xs. p x = Some y"
  by (induction xs arbitrary: ys) (auto split: option.splits)

lemma map_of_jsonNumbers:
  "map_of kvs k = Some (JNum x) \<Longrightarrow> x \<in> jsonNumbers (JObj kvs)"
  by (auto dest!: map_of_SomeD intro!: bexI [where x = "(k, JNum x)"])

lemma arrayIndex_data [simp]: "arrayIndex ''data'' = None"
  by (simp add: arrayIndex_def isDigit_def)

lemma parseChannelItem_numbers:
  assumes "parseChannelItem j = Some item" and "channelOfItem item = Some c"
  shows "\<exists>x \<in> jsonNumbers j. share c = normalizeShare x"
proof -
  obtain kvs where j: "j = JObj kvs"
    using assms(1) by (cases j) auto
  obtain x where x: "coalesce (itemShare item) (itemValue item) = Some x"
    "share c = normalizeShare x"
    using assms(2)
    by (auto simp: channelOfItem_def Let_def split: option.splits if_splits)
  have "map_of kvs ''share'' = Some (JNum x) \<or> map_of kvs ''value'' = Some (JNum x)"
    using assms(1) x(1) unfolding j
    by (auto simp: coalesce_def split: option.splits prod.splits
        elim!: optionalNumber.elims)
  then have "x \<in> jsonNumbers j"
    unfolding j by (auto dest: map_of_jsonNumbers)
  with x(2) show ?thesis by blast
qed

lemma channelOfEntry_numbers:
  assumes "channelOfEntry kv = Some c"
  shows "\<exists>x \<in> jsonNumbers (snd kv). share c = normalizeShare x"
  using assms by (auto simp: channelOfEntry_def split: json.splits)

lemma data_numbers:
  assumes "truthy raw" and "typeofObject raw"
  shows "jsonNumbers (case getProp raw ''data'' of None \<Rightarrow> raw | Some JNull \<Rightarrow> raw | Some d \<Rightarrow> d)
           \<subseteq> jsonNumbers raw"
proof (cases raw)
  case (JObj kvs)
  show ?thesis
  proof (cases "map_of kvs ''data''")
    case None
    then show ?thesis using JObj by simp
  next
    case (Some d)
    then have "(''data'', d) \<in> set kvs" by (rule map_of_SomeD)
    then have "jsonNumbers d \<subseteq> jsonNumbers raw"
      unfolding JObj by force
    then show ?thesis using JObj Some by (cases d) auto
  qed
qed (use assms in auto)

text \<open>
  Claim C2, as the code has it. Every share that \<open>parseChannels\<close> returns is
  \<open>normalizeShare v\<close> for a number \<open>v\<close> of the payload, and it lies in \<open>[0, 1]\<close>
  whenever \<open>0 \<le> v \<le> 100\<close>. The parser neither rejects nor clamps a number outside
  that range: 250 becomes the share 2.5, and a negative number stays as it is.
\<close>

theorem parseChannels_share_range:
  assumes "parseChannels raw = Some cs" and "c \<in> set cs"
  shows "\<exists>v \<in> jsonNumbers raw.
           share c = normalizeShare v \<and>
           (0 \<le> v \<and> v \<le> 100 \<longrightarrow> 0 \<le> share c \<and> share c \<le> 1)"
proof -
  define data where
    "data = (case getProp raw ''data'' of None \<Rightarrow> raw | Some JNull \<Rightarrow> raw | Some d \<Rightarrow> d)"
  have ok: "truthy raw" "typeofObject raw"
    using assms(1) by (auto simp: parseChannels_def split: if_splits)
  have sub: "jsonNumbers data \<subseteq> jsonNumbers raw"
    unfolding data_def using ok by (rule data_numbers)
  have "\<exists>v \<in> jsonNumbers data. share c = normalizeShare v"
  proof (cases data)
    case (JArr items)
    then obtain parsed where p: "parseAll parseChannelItem items = Some parsed"
      "cs = List.map_filter channelOfItem parsed"
      using assms(1) ok
      by (auto simp: parseChannels_def Let_def data_def [symmetric]
          split: option.splits if_splits)
    then obtain item where i: "item \<in> set parsed" "channelOfItem item = Some c"
      using assms(2) by (auto simp: List.map_filter_def)
    then obtain j where j: "j \<in> set items" "parseChannelItem j = Some item"
      using parseAll_member [OF p(1)] by blast
    from parseChannelItem_numbers [OF j(2) i(2)] j(1) JArr show ?thesis
      by auto
  next
    case (JObj kvs)
    then have "cs = List.map_filter channelOfEntry kvs"
      using assms(1) ok
      by (auto simp: parseChannels_def Let_def data_def [symmetric] split: if_splits)
    then obtain kv where "kv \<in> set kvs" "channelOfEntry kv = Some c"
      using assms(2) by (auto simp: List.map_filter_def)
    with channelOfEntry_numbers [of kv c] JObj show ?thesis by auto
  qed (use assms(1) ok in \<open>auto simp: parseChannels_def Let_def data_def [symmetric]\<close>)
  then obtain v where "v \<in> jsonNumbers raw" "share c = normalizeShare v"
    using sub by blast
  then show ?thesis
    using normalizeShare_range [of v] by auto
qed


theorem parseChannels_share_range_witness:
  "parseChannels (JObj [(''search'', JNum 55), (''direct'', JNum (2 / 10))]) =
     Some [\<lparr>channel = ''search'', share = f64 (55 / 100)\<rparr>,
           \<lparr>channel = ''direct'', share = 2 / 10\<rparr>] \<and>
   (\<exists>v \<in> jsonNumbers (JObj [(''search'', JNum 55), (''direct'', JNum (2 / 10))]).
      share \<lparr>channel = ''search'', share = f64 (55 / 100)\<rparr> = normalizeShare v \<and>
      (0 \<le> v \<and> v \<le> 100 \<longrightarrow>
         0 \<le> share \<lparr>channel = ''search'', share = f64 (55 / 100)\<rparr> \<and>
         share \<lparr>channel = ''search'', share = f64 (55 / 100)\<rparr> \<le> 1))"
proof -
  have e: "parseChannels (JObj [(''search'', JNum 55), (''direct'', JNum (2 / 10))]) =
     Some [\<lparr>channel = ''search'', share = f64 (55 / 100)\<rparr>,
           \<lparr>channel = ''direct'', share = 2 / 10\<rparr>]"
    by (simp add: parseChannels_def channelOfEntry_def List.map_filter_def normalizeShare_def)
  show ?thesis
    using e parseChannels_share_range
      [OF e, of "\<lparr>channel = ''search'', share = f64 (55 / 100)\<rparr>"]
    by simp
qed

theorem parseChannels_share_out_of_range:
  "parseChannels
     (JObj [(''data'', JArr [JObj [(''channel'', JStr ''search''), (''share'', JNum 250)]])]) =
     Some [\<lparr>channel = ''search'', share = 5 / 2\<rparr>] \<and>
   \<not> (5 / 2 :: real) \<le> 1 \<and>
   parseChannels (JObj [(''direct'', JNum (- 5))]) =
     Some [\<lparr>channel = ''direct'', share = - 5\<rparr>] \<and>
   \<not> (0 :: real) \<le> - 5"
proof -
  have "normalizeShare 250 = 5 / 2"
    using f64_5_2 by (simp add: normalizeShare_def)
  then show ?thesis
    by (simp add: parseChannels_def channelOfEntry_def channelOfItem_def List.map_filter_def
        orString_def coalesce_def normalizeShare_def)
qed

section \<open>Array extraction\<close>

lemma lookupIn_guard:
  "asArray (lookupIn v key) = (if isObjectLike v then asArray (getProp (the v) key) else None)"
proof (cases v)
  case None
  then show ?thesis by simp
next
  case (Some w)
  then show ?thesis by (cases w) simp_all
qed

lemma firstFound_Cons:
  "firstFound (x # rest) = (case x of None \<Rightarrow> firstFound rest | Some y \<Rightarrow> Some y)"
  by (cases x) simp_all

text \<open>
  Claim C4. \<open>extractArray\<close> returns an array payload as it is; for an object it
  returns the first array among the candidate key at the top level, the candidate key
  inside the \<open>data\<close> field and the \<open>data\<close> field inside the candidate key, and \<open>null\<close>
  when none of the three is an array (and for every payload that is neither an array
  nor an object). For the payload
  \<open>{data: {bounce_rate: [{date: "2024-01", value: 42}]}}\<close> and the keys
  \<open>["bounce_rate", "data"]\<close>, \<open>parseSeries\<close> yields the one point with value 42.
\<close>

theorem extractArray_order:
  "extractArray raw key = extractArray_spec raw key \<and>
   extractArray (JArr xs) key = Some xs \<and>
   parseSeries
     (JObj [(''data'',
        JObj [(''bounce_rate'',
          JArr [JObj [(''date'', JStr ''2024-01''), (''value'', JNum 42)]])])])
     [''bounce_rate'', ''data''] =
     Some [\<lparr>date = ''2024-01'', pvalue = 42\<rparr>]"
proof -
  have spec: "extractArray raw key = extractArray_spec raw key"
  proof (cases raw)
    case (JObj kvs)
    show ?thesis
      unfolding JObj extractArray_def extractArray_spec_def
      by (simp add: lookupIn_guard firstFound_Cons Let_def split: option.splits)
  qed (simp_all add: extractArray_def extractArray_spec_def)
  have arr: "extractArray (JArr xs) key = Some xs"
    by (simp add: extractArray_def)
  have ex: "parseSeries
     (JObj [(''data'',
        JObj [(''bounce_rate'',
          JArr [JObj [(''date'', JStr ''2024-01''), (''value'', JNum 42)]])])])
     [''bounce_rate'', ''data''] =
     Some [\<lparr>date = ''2024-01'', pvalue = 42\<rparr>]"
    by (simp add: parseSeries_def extractArray_def numericPoints_def List.map_filter_def)
  from spec arr ex show ?thesis by simp
qed

section \<open>Latest value\<close>

lemma sorted_map_le_last:
  "sorted (map f xs) \<Longrightarrow> x \<in> set xs \<Longrightarrow> f x \<le> f (last xs)"
  by (induction xs) (auto split: if_splits)

lemma last_filter_last:
  "xs \<noteq> [] \<Longrightarrow> P (last xs) \<Longrightarrow> last (filter P xs) = last xs"
  by (induction xs rule: rev_induct) simp_all

text \<open>
  With a comparator that orders the elements of the list as their keys are ordered,
  the insertion sort of the model is the stable sort by key.
\<close>

lemma insertBy_insort_key:
  assumes "\<forall>y \<in> set ys. (cmp x y \<le> 0) = (f x \<le> f y)"
  shows "insertBy cmp x ys = insort_key f x ys"
  using assms by (induction ys) simp_all

lemma sortBy_sort_key:
  assumes "\<forall>x \<in> set xs. \<forall>y \<in> set xs. (cmp x y \<le> 0) = (f x \<le> f y)"
  shows "sortBy cmp xs = sort_key f xs"
  using assms
proof (induction xs)
  case Nil
  then show ?case by (simp add: sortBy_def)
next
  case (Cons x xs)
  then have ih: "sortBy cmp xs = sort_key f xs" by simp
  have "insertBy cmp x (sort_key f xs) = insort_key f x (sort_key f xs)"
    using Cons.prems by (intro insertBy_insort_key) simp
  with ih show ?case by (simp add: sortBy_def)
qed

lemma latestValue_nonempty:
  assumes agree: "\<forall>p \<in> set series. \<forall>q \<in> set series.
      (localeCompare (date p) (date q) \<le> 0) = (date p \<le> date q)"
    and ne: "series \<noteq> []"
  shows "\<exists>p \<in> set series.
           latestValue localeCompare series = Some (pvalue p) \<and>
           (\<forall>q \<in> set series. date q \<le> date p) \<and>
           p = last (filter (\<lambda>q. date q = date p) series)"
proof -
  define s where "s = sort_key date series"
  define p where "p = last s"
  have srt: "sortBy (\<lambda>a b. localeCompare (date a) (date b)) series = s"
    unfolding s_def using agree by (rule sortBy_sort_key)
  have sne: "s \<noteq> []" using ne by (metis s_def length_sort length_0_conv)
  have p_in: "p \<in> set series"
    using sne by (metis p_def s_def last_in_set set_sort)
  have "sorted (map date s)" by (simp add: s_def)
  then have mx: "\<forall>q \<in> set series. date q \<le> date p"
    using sorted_map_le_last [of date s] by (simp add: p_def s_def)
  have "filter (\<lambda>q. date q = date p) s = filter (\<lambda>q. date q = date p) series"
    unfolding s_def by (rule sort_key_stable)
  moreover have "last (filter (\<lambda>q. date q = date p) s) = last s"
    using sne by (rule last_filter_last) (simp add: p_def)
  ultimately have st: "p = last (filter (\<lambda>q. date q = date p) series)"
    by (simp add: p_def)
  have "latestValue localeCompare series = Some (pvalue p)"
    using ne by (simp add: latestValue_def srt p_def)
  with p_in mx st show ?thesis by blast
qed

text \<open>
  Claim C8. The labels of a timeseries are date labels, which \<open>localeCompare\<close> orders
  as the lexicographic order of their characters does; the theorem asks this of the
  labels of the series. The empty series has no latest value. For a series that is
  not empty, \<open>latestValue\<close> is the value of a point whose date label is greatest in
  the lexicographic order; when several points carry that label it is the last of
  them in array order. \<open>[{"2024-02", 10}, {"2024-01", 5}]\<close> yields 10, the value of
  the first element, not of the last, as \<open>localeCompare\<close> puts \<open>2024-02\<close> after
  \<open>2024-01\<close>.
\<close>

theorem latestValue_greatest_label:
  assumes "\<forall>p \<in> set series. \<forall>q \<in> set series.
      (localeCompare (date p) (date q) \<le> 0) = (date p \<le> date q)"
  shows "latestValue localeCompare [] = None \<and>
   (series \<noteq> [] \<longrightarrow>
      (\<exists>p \<in> set series.
         latestValue localeCompare series = Some (pvalue p) \<and>
         (\<forall>q \<in> set series. date q \<le> date p) \<and>
         p = last (filter (\<lambda>q. date q = date p) series))) \<and>
   (0 < localeCompare ''2024-02'' ''2024-01'' \<longrightarrow>
      latestValue localeCompare [\<lparr>date = ''2024-02'', pvalue = 10\<rparr>, \<lparr>date = ''2024-01'', pvalue = 5\<rparr>] = Some 10)"
proof -
  have "latestValue localeCompare [\<lparr>date = ''2024-02'', pvalue = 10\<rparr>, \<lparr>date = ''2024-01'', pvalue = 5\<rparr>] = Some 10"
    if "0 < localeCompare ''2024-02'' ''2024-01''"
    using that by (simp add: latestValue_def sortBy_def)
  moreover have "latestValue localeCompare [] = None"
    by (simp add: latestValue_def)
  ultimately show ?thesis
    using latestValue_nonempty [OF assms] by blast
qed

theorem latestValue_greatest_label_witness:
  "[\<lparr>date = ''2024-02'', pvalue = 10\<rparr>, \<lparr>date = ''2024-01'', pvalue = 5\<rparr>] \<noteq> [] \<and>
   0 < compareCodes ''2024-02'' ''2024-01'' \<and>
   latestValue compareCodes [\<lparr>date = ''2024-02'', pvalue = 10\<rparr>, \<lparr>date = ''2024-01'', pvalue = 5\<rparr>] = Some 10 \<and>
   (\<exists>p \<in> set [\<lparr>date = ''2024-02'', pvalue = 10\<rparr>, \<lparr>date = ''2024-01'', pvalue = 5\<rparr>].
      latestValue compareCodes [\<lparr>date = ''2024-02'', pvalue = 10\<rparr>, \<lparr>date = ''2024-01'', pvalue = 5\<rparr>] = Some (pvalue p) \<and>
      (\<forall>q \<in> set [\<lparr>date = ''2024-02'', pvalue = 10\<rparr>, \<lparr>date = ''2024-01'', pvalue = 5\<rparr>]. date q \<le> date p) \<and>
      p = last (filter (\<lambda>q. date q = date p) [\<lparr>date = ''2024-02'', pvalue = 10\<rparr>, \<lparr>date = ''2024-01'', pvalue = 5\<rparr>]))"
proof -
  have agree: "\<forall>p \<in> set [\<lparr>date = ''2024-02'', pvalue = 10\<rparr>, \<lparr>date = ''2024-01'', pvalue = 5\<rparr>]. \<forall>q \<in> set [\<lparr>date = ''2024-02'', pvalue = 10\<rparr>, \<lparr>date = ''2024-01'', pvalue = 5\<rparr>].
      (compareCodes (date p) (date q) \<le> 0) = (date p \<le> date q)"
    by (simp add: compareCodes_def)
  have ne: "[\<lparr>date = ''2024-02'', pvalue = 10\<rparr>, \<lparr>date = ''2024-01'', pvalue = 5\<rparr>] \<noteq> []"
    by simp
  have gt: "0 < compareCodes ''2024-02'' ''2024-01''"
    by (simp add: compareCodes_def)
  from latestValue_greatest_label [OF agree] ne gt
  show ?thesis by blast
qed

section \<open>Domain normalization\<close>























lemmas domain_eval =
  normalizeDomain_def exampleLibrary_def exampleUrls_def js_def trim_def isWhiteSpace_def
  whiteSpaceCodes_def hasScheme_def isAlpha_def isUpper_def isLower_def isDecimal_def
  asciiLower_def toLowerCase_def isAscii_def stripWww_def stripTrailingDot_def
  blockedHostnames_def hostnameRegex_def validLabel_def specialSchemes_def suffix_Cons
  Let_def




text \<open>
  Why the theorem asks for a special scheme: the URL parser keeps the host of a URL
  with another scheme as it is, and the same host may be no valid host under
  \<open>https\<close>. \<open>foo://a.123\<close> gives the domain \<open>a.123\<close>, which has no leading \<open>www.\<close>, and
  on \<open>a.123\<close> the constructor of \<open>https://a.123\<close> throws.
\<close>

lemma normalizeDomain_other_scheme:
  "normalizeDomain exampleLibrary (js ''foo://a.123'') = Ok (js ''a.123'') \<and>
   \<not> prefix (js ''www.'') (js ''a.123'') \<and>
   normalizeDomain exampleLibrary (js ''a.123'') =
     Error ''That doesn't look like a valid URL.''"
  by (simp add: domain_eval)

section \<open>Aggregation\<close>

lemma collect_series:
  assumes "key \<noteq> Channels"
  shows "collect acc (key, out) =
           acc\<lparr>cNotes := cNotes acc @ noteFor key out,
               cTimeseries :=
                 (if noteFor key out = [] then setSeries key (seriesFor key out) (cTimeseries acc)
                  else cTimeseries acc)\<rparr>"
  using assms by (cases out) (auto simp: collect_def split: option.splits)

lemma collect_channels:
  "collect acc (Channels, out) =
     acc\<lparr>cNotes := cNotes acc @ noteFor Channels out,
         cChannels := (if noteFor Channels out = [] then channelsFor out else cChannels acc)\<rparr>"
  by (cases out) (auto simp: collect_def split: option.splits)

lemma noteFor_seriesFor: "noteFor key out \<noteq> [] \<Longrightarrow> key \<noteq> Channels \<Longrightarrow> seriesFor key out = []"
  by (cases out) (auto split: option.splits)

lemma noteFor_channelsFor: "noteFor Channels out \<noteq> [] \<Longrightarrow> channelsFor out = []"
  by (cases out) (auto split: option.splits)

lemma fetchSimilarwebInsights_closed:
  "fetchSimilarwebInsights lc v b p a c =
     \<lparr>summary =
        \<lparr>latestVisits = latestValue lc (seriesFor Visits v),
         latestBounceRate = latestValue lc (seriesFor BounceRate b),
         latestPagesPerVisit = latestValue lc (seriesFor PagesPerVisit p),
         latestAvgDurationSeconds = latestValue lc (seriesFor AvgDuration a)\<rparr>,
      timeseries =
        \<lparr>visits = seriesFor Visits v, bounceRate = seriesFor BounceRate b,
         pagesPerVisit = seriesFor PagesPerVisit p, avgDuration = seriesFor AvgDuration a\<rparr>,
      channels = channelsFor c,
      meta =
        \<lparr>partial =
           (noteFor Visits v @ noteFor BounceRate b @ noteFor PagesPerVisit p @
              noteFor AvgDuration a @ noteFor Channels c \<noteq> [] \<or>
            (seriesFor Visits v = [] \<and> seriesFor BounceRate b = [] \<and>
             seriesFor PagesPerVisit p = [] \<and> seriesFor AvgDuration a = [] \<and>
             channelsFor c = [])),
         metaNotes =
           noteFor Visits v @ noteFor BounceRate b @ noteFor PagesPerVisit p @
             noteFor AvgDuration a @ noteFor Channels c\<rparr>\<rparr>"
  unfolding fetchSimilarwebInsights_def
  by (simp add: collect_series collect_channels Let_def setSeries_def emptyTimeseries_def
      noteFor_seriesFor noteFor_channelsFor)


lemmas parse_eval =
  parseSeries_def extractArray_def numericPoints_def List.map_filter_def
  parseChannels_def channelOfEntry_def normalizeShare_def arrayIndex_def isDigit_def

text \<open>
  Claim C3, as the code has it. For every five settled outcomes, \<open>partial\<close> is true
  exactly when there is a note or all five collections are empty. The notes are, in
  the order of the five calls, one note \<open><key> data unavailable.\<close> for each call that
  was rejected or whose payload the parser cannot read, and no other (\<open>noteFor\<close>);
  each field holds what the parser returned for the payload of its call, the channels
  sorted by descending share, and is empty when the call added a note (\<open>seriesFor\<close>,
  \<open>channelsFor\<close>). So when exactly one call is rejected and the payloads of the other
  four parse, \<open>partial\<close> is true, there is one note, and each of the other four fields
  holds the parsed data. When one call is rejected and the payload of another does
  not parse, there are two notes.
\<close>

theorem fetchSimilarwebInsights_partial:
  "(partial (meta (fetchSimilarwebInsights lc v b p a c)) \<longleftrightarrow>
      metaNotes (meta (fetchSimilarwebInsights lc v b p a c)) \<noteq> [] \<or>
      (visits (timeseries (fetchSimilarwebInsights lc v b p a c)) = [] \<and>
       bounceRate (timeseries (fetchSimilarwebInsights lc v b p a c)) = [] \<and>
       pagesPerVisit (timeseries (fetchSimilarwebInsights lc v b p a c)) = [] \<and>
       avgDuration (timeseries (fetchSimilarwebInsights lc v b p a c)) = [] \<and>
       channels (fetchSimilarwebInsights lc v b p a c) = [])) \<and>
   metaNotes (meta (fetchSimilarwebInsights lc v b p a c)) =
     noteFor Visits v @ noteFor BounceRate b @ noteFor PagesPerVisit p @
       noteFor AvgDuration a @ noteFor Channels c \<and>
   visits (timeseries (fetchSimilarwebInsights lc v b p a c)) = seriesFor Visits v \<and>
   bounceRate (timeseries (fetchSimilarwebInsights lc v b p a c)) = seriesFor BounceRate b \<and>
   pagesPerVisit (timeseries (fetchSimilarwebInsights lc v b p a c)) =
     seriesFor PagesPerVisit p \<and>
   avgDuration (timeseries (fetchSimilarwebInsights lc v b p a c)) = seriesFor AvgDuration a \<and>
   channels (fetchSimilarwebInsights lc v b p a c) = channelsFor c \<and>
   (length (filter (\<lambda>out. out = Rejected) [v, b, p, a, c]) = 1 \<and>
    (\<forall>raw. v = Fulfilled raw \<longrightarrow> parseSeries raw (seriesKeyMap Visits) \<noteq> None) \<and>
    (\<forall>raw. b = Fulfilled raw \<longrightarrow> parseSeries raw (seriesKeyMap BounceRate) \<noteq> None) \<and>
    (\<forall>raw. p = Fulfilled raw \<longrightarrow> parseSeries raw (seriesKeyMap PagesPerVisit) \<noteq> None) \<and>
    (\<forall>raw. a = Fulfilled raw \<longrightarrow> parseSeries raw (seriesKeyMap AvgDuration) \<noteq> None) \<and>
    (\<forall>raw. c = Fulfilled raw \<longrightarrow> parseChannels raw \<noteq> None) \<longrightarrow>
    partial (meta (fetchSimilarwebInsights lc v b p a c)) \<and>
    length (metaNotes (meta (fetchSimilarwebInsights lc v b p a c))) = 1 \<and>
    (\<forall>raw. v = Fulfilled raw \<longrightarrow>
       parseSeries raw (seriesKeyMap Visits) =
         Some (visits (timeseries (fetchSimilarwebInsights lc v b p a c)))) \<and>
    (\<forall>raw. b = Fulfilled raw \<longrightarrow>
       parseSeries raw (seriesKeyMap BounceRate) =
         Some (bounceRate (timeseries (fetchSimilarwebInsights lc v b p a c)))) \<and>
    (\<forall>raw. p = Fulfilled raw \<longrightarrow>
       parseSeries raw (seriesKeyMap PagesPerVisit) =
         Some (pagesPerVisit (timeseries (fetchSimilarwebInsights lc v b p a c)))) \<and>
    (\<forall>raw. a = Fulfilled raw \<longrightarrow>
       parseSeries raw (seriesKeyMap AvgDuration) =
         Some (avgDuration (timeseries (fetchSimilarwebInsights lc v b p a c)))) \<and>
    (\<forall>raw. c = Fulfilled raw \<longrightarrow>
       map_option (sort_key (\<lambda>x. - share x)) (parseChannels raw) =
         Some (channels (fetchSimilarwebInsights lc v b p a c))))"
proof -
  have notes_len: "length (noteFor key out) = (if out = Rejected then 1 else 0)"
    if "\<forall>raw. out = Fulfilled raw \<longrightarrow>
          (if key = Channels then parseChannels raw \<noteq> None
           else parseSeries raw (seriesKeyMap key) \<noteq> None)" for key out
    using that by (cases out) auto
  have rej: "length (filter (\<lambda>out. out = Rejected) [v, b, p, a, c]) =
      (if v = Rejected then 1 else 0) + (if b = Rejected then 1 else 0) +
      (if p = Rejected then 1 else 0) + (if a = Rejected then 1 else 0) +
      (if c = Rejected then 1 else (0::nat))"
    by simp
  show ?thesis
    unfolding fetchSimilarwebInsights_closed rej
    apply (intro conjI impI)
    subgoal by simp
    subgoal by simp
    subgoal by simp
    subgoal by simp
    subgoal by simp
    subgoal by simp
    subgoal by simp
    subgoal by (cases v; cases b; cases p; cases a; cases c) auto
    subgoal by (simp add: notes_len)
    subgoal by (cases v) auto
    subgoal by (cases b) auto
    subgoal by (cases p) auto
    subgoal by (cases a) auto
    subgoal by (cases c) auto
    done
qed

theorem fetchSimilarwebInsights_partial_witness:
  "length (filter (\<lambda>out. out = Rejected)
      [Rejected,
       Fulfilled (JObj [(''bounce_rate'',
         JArr [JObj [(''date'', JStr ''2024-01''), (''value'', JNum 42)]])]),
       Fulfilled (JObj [(''pages_per_visit'',
         JArr [JObj [(''date'', JStr ''2024-01''), (''value'', JNum 3)]])]),
       Fulfilled (JObj [(''data'',
         JArr [JObj [(''date'', JStr ''2024-01''), (''value'', JNum 120)]])]),
       Fulfilled (JObj [(''direct'', JNum (1 / 4)), (''search'', JNum (1 / 2))])]) = 1 \<and>
   partial (meta (fetchSimilarwebInsights compareCodes Rejected
       (Fulfilled (JObj [(''bounce_rate'',
         JArr [JObj [(''date'', JStr ''2024-01''), (''value'', JNum 42)]])]))
       (Fulfilled (JObj [(''pages_per_visit'',
         JArr [JObj [(''date'', JStr ''2024-01''), (''value'', JNum 3)]])]))
       (Fulfilled (JObj [(''data'',
         JArr [JObj [(''date'', JStr ''2024-01''), (''value'', JNum 120)]])]))
       (Fulfilled (JObj [(''direct'', JNum (1 / 4)), (''search'', JNum (1 / 2))])))) \<and>
   length (metaNotes (meta (fetchSimilarwebInsights compareCodes Rejected
       (Fulfilled (JObj [(''bounce_rate'',
         JArr [JObj [(''date'', JStr ''2024-01''), (''value'', JNum 42)]])]))
       (Fulfilled (JObj [(''pages_per_visit'',
         JArr [JObj [(''date'', JStr ''2024-01''), (''value'', JNum 3)]])]))
       (Fulfilled (JObj [(''data'',
         JArr [JObj [(''date'', JStr ''2024-01''), (''value'', JNum 120)]])]))
       (Fulfilled (JObj [(''direct'', JNum (1 / 4)), (''search'', JNum (1 / 2))]))))) = 1 \<and>
   bounceRate (timeseries (fetchSimilarwebInsights compareCodes Rejected
       (Fulfilled (JObj [(''bounce_rate'',
         JArr [JObj [(''date'', JStr ''2024-01''), (''value'', JNum 42)]])]))
       (Fulfilled (JObj [(''pages_per_visit'',
         JArr [JObj [(''date'', JStr ''2024-01''), (''value'', JNum 3)]])]))
       (Fulfilled (JObj [(''data'',
         JArr [JObj [(''date'', JStr ''2024-01''), (''value'', JNum 120)]])]))
       (Fulfilled (JObj [(''direct'', JNum (1 / 4)), (''search'', JNum (1 / 2))])))) =
     [\<lparr>date = ''2024-01'', pvalue = 42\<rparr>] \<and>
   channels (fetchSimilarwebInsights compareCodes Rejected
       (Fulfilled (JObj [(''bounce_rate'',
         JArr [JObj [(''date'', JStr ''2024-01''), (''value'', JNum 42)]])]))
       (Fulfilled (JObj [(''pages_per_visit'',
         JArr [JObj [(''date'', JStr ''2024-01''), (''value'', JNum 3)]])]))
       (Fulfilled (JObj [(''data'',
         JArr [JObj [(''date'', JStr ''2024-01''), (''value'', JNum 120)]])]))
       (Fulfilled (JObj [(''direct'', JNum (1 / 4)), (''search'', JNum (1 / 2))]))) =
     [\<lparr>channel = ''search'', share = 1 / 2\<rparr>, \<lparr>channel = ''direct'', share = 1 / 4\<rparr>]"
  using fetchSimilarwebInsights_partial
    [of compareCodes Rejected
       "Fulfilled (JObj [(''bounce_rate'',
         JArr [JObj [(''date'', JStr ''2024-01''), (''value'', JNum 42)]])])"
       "Fulfilled (JObj [(''pages_per_visit'',
         JArr [JObj [(''date'', JStr ''2024-01''), (''value'', JNum 3)]])])"
       "Fulfilled (JObj [(''data'',
         JArr [JObj [(''date'', JStr ''2024-01''), (''value'', JNum 120)]])])"
       "Fulfilled (JObj [(''direct'', JNum (1 / 4)), (''search'', JNum (1 / 2))])"]
  by (simp add: fetchSimilarwebInsights_closed parse_eval)

theorem fetchSimilarwebInsights_two_notes:
  "length (filter (\<lambda>out. out = Rejected)
      [Rejected,
       Fulfilled (JObj [(''bounce_rate'', JArr [])]),
       Fulfilled (JObj [(''pages_per_visit'',
         JArr [JObj [(''date'', JStr ''2024-01''), (''value'', JNum 3)]])]),
       Fulfilled (JObj [(''data'',
         JArr [JObj [(''date'', JStr ''2024-01''), (''value'', JNum 120)]])]),
       Fulfilled (JObj [(''direct'', JNum (1 / 4)), (''search'', JNum (1 / 2))])]) = 1 \<and>
   metaNotes (meta (fetchSimilarwebInsights compareCodes Rejected
       (Fulfilled (JObj [(''bounce_rate'', JArr [])]))
       (Fulfilled (JObj [(''pages_per_visit'',
         JArr [JObj [(''date'', JStr ''2024-01''), (''value'', JNum 3)]])]))
       (Fulfilled (JObj [(''data'',
         JArr [JObj [(''date'', JStr ''2024-01''), (''value'', JNum 120)]])]))
       (Fulfilled (JObj [(''direct'', JNum (1 / 4)), (''search'', JNum (1 / 2))])))) =
     [''visits data unavailable.'', ''bounceRate data unavailable.'']"
  by (simp add: fetchSimilarwebInsights_closed parse_eval)

section \<open>The three months before the current month\<close>




lemma showNat_small: "n < 10 \<Longrightarrow> showNat n = [digitChar n]"
  by simp

lemma padStart2_small: "n < 10 \<Longrightarrow> padStart2 (showNat n) = [CHR ''0'', digitChar n]"
  by (simp add: padStart2_def numeral_2_eq_2)




section \<open>Properties of the RateGovernor\<close>

lemma checkRateLimit_fresh:
  "st key = None \<Longrightarrow>
   checkRateLimit st now key limit windowMs =
     (\<lparr>allowed = True, remaining = limit - 1, resultResetAt = now + windowMs\<rparr>,
      st(key \<mapsto> \<lparr>count = 1, resetAt = now + windowMs\<rparr>))"
  by (simp add: checkRateLimit_def)

lemma checkRateLimit_expired:
  "st key = Some entry \<Longrightarrow> resetAt entry \<le> now \<Longrightarrow>
   checkRateLimit st now key limit windowMs =
     (\<lparr>allowed = True, remaining = limit - 1, resultResetAt = now + windowMs\<rparr>,
      st(key \<mapsto> \<lparr>count = 1, resetAt = now + windowMs\<rparr>))"
  by (simp add: checkRateLimit_def)

lemma checkRateLimit_increment:
  "st key = Some entry \<Longrightarrow> now < resetAt entry \<Longrightarrow> count entry < limit \<Longrightarrow>
   checkRateLimit st now key limit windowMs =
     (\<lparr>allowed = True, remaining = limit - (count entry + 1),
       resultResetAt = resetAt entry\<rparr>,
      st(key \<mapsto> entry\<lparr>count := count entry + 1\<rparr>))"
  by (simp add: checkRateLimit_def)

lemma checkRateLimit_full:
  "st key = Some entry \<Longrightarrow> now < resetAt entry \<Longrightarrow> limit \<le> count entry \<Longrightarrow>
   checkRateLimit st now key limit windowMs =
     (\<lparr>allowed = False, remaining = 0, resultResetAt = resetAt entry\<rparr>, st)"
  by (simp add: checkRateLimit_def)

lemma checkRateLimit_denies_only_when_full:
  assumes "\<not> allowed (fst (checkRateLimit st now key limit windowMs))"
  shows "\<exists>entry. st key = Some entry \<and> now < resetAt entry \<and> limit \<le> count entry"
  using assms by (auto simp: checkRateLimit_def split: option.splits if_splits)

text \<open>
  Claim C5. With \<open>limit = 3\<close> and \<open>windowMs = 1000\<close>, on a key that has no entry: the
  first three checks, the later ones made before the window opened by the first has
  elapsed, are allowed with \<open>remaining\<close> 2, 1 and 0; a fourth check inside the window is
  refused; and a check made once the window has elapsed (the clock has reached the
  entry's \<open>resetAt\<close>) is allowed again with \<open>remaining = 2\<close>.
\<close>

theorem checkRateLimit_window:
  assumes fresh: "st0 key = None"
    and inside: "t2 < t1 + 1000" "t3 < t1 + 1000" "t4 < t1 + 1000"
    and elapsed: "t1 + 1000 \<le> t5"
  shows "case checkRateLimit st0 t1 key 3 1000 of (r1, st1) \<Rightarrow>
         case checkRateLimit st1 t2 key 3 1000 of (r2, st2) \<Rightarrow>
         case checkRateLimit st2 t3 key 3 1000 of (r3, st3) \<Rightarrow>
         case checkRateLimit st3 t4 key 3 1000 of (r4, st4) \<Rightarrow>
         case checkRateLimit st4 t5 key 3 1000 of (r5, st5) \<Rightarrow>
           allowed r1 \<and> remaining r1 = 2 \<and>
           allowed r2 \<and> remaining r2 = 1 \<and>
           allowed r3 \<and> remaining r3 = 0 \<and>
           \<not> allowed r4 \<and>
           allowed r5 \<and> remaining r5 = 2"
proof -
  define e1 where "e1 = \<lparr>count = 1, resetAt = t1 + 1000\<rparr>"
  define e2 where "e2 = \<lparr>count = 2, resetAt = t1 + 1000\<rparr>"
  define e3 where "e3 = \<lparr>count = 3, resetAt = t1 + 1000\<rparr>"
  have c1: "checkRateLimit st0 t1 key 3 1000 =
      (\<lparr>allowed = True, remaining = 2, resultResetAt = t1 + 1000\<rparr>, st0(key \<mapsto> e1))"
    using fresh by (simp add: checkRateLimit_fresh e1_def)
  have c2: "checkRateLimit (st0(key \<mapsto> e1)) t2 key 3 1000 =
      (\<lparr>allowed = True, remaining = 1, resultResetAt = t1 + 1000\<rparr>, st0(key \<mapsto> e2))"
    using inside(1) by (simp add: checkRateLimit_def e1_def e2_def)
  have c3: "checkRateLimit (st0(key \<mapsto> e2)) t3 key 3 1000 =
      (\<lparr>allowed = True, remaining = 0, resultResetAt = t1 + 1000\<rparr>, st0(key \<mapsto> e3))"
    using inside(2) by (simp add: checkRateLimit_def e2_def e3_def)
  have c4: "checkRateLimit (st0(key \<mapsto> e3)) t4 key 3 1000 =
      (\<lparr>allowed = False, remaining = 0, resultResetAt = t1 + 1000\<rparr>, st0(key \<mapsto> e3))"
    using inside(3) by (simp add: checkRateLimit_def e3_def)
  have c5: "checkRateLimit (st0(key \<mapsto> e3)) t5 key 3 1000 =
      (\<lparr>allowed = True, remaining = 2, resultResetAt = t5 + 1000\<rparr>,
       st0(key \<mapsto> \<lparr>count = 1, resetAt = t5 + 1000\<rparr>))"
    using elapsed by (simp add: checkRateLimit_def e3_def)
  show ?thesis
    by (simp add: c1 c2 c3 c4 c5)
qed

theorem checkRateLimit_window_witness:
  "case checkRateLimit Map.empty 0 ''ip'' 3 1000 of (r1, st1) \<Rightarrow>
   case checkRateLimit st1 10 ''ip'' 3 1000 of (r2, st2) \<Rightarrow>
   case checkRateLimit st2 20 ''ip'' 3 1000 of (r3, st3) \<Rightarrow>
   case checkRateLimit st3 30 ''ip'' 3 1000 of (r4, st4) \<Rightarrow>
   case checkRateLimit st4 1000 ''ip'' 3 1000 of (r5, st5) \<Rightarrow>
     allowed r1 \<and> remaining r1 = 2 \<and>
     allowed r2 \<and> remaining r2 = 1 \<and>
     allowed r3 \<and> remaining r3 = 0 \<and>
     \<not> allowed r4 \<and>
     allowed r5 \<and> remaining r5 = 2"
  using checkRateLimit_window [of Map.empty "''ip''" 10 0 20 30 1000]
  by simp

text \<open>
  Claim C6. When the key has an entry whose window has not elapsed and whose count
  has reached the limit, the check returns \<open>allowed = false\<close>, \<open>remaining = 0\<close> and the
  entry's own \<open>resetAt\<close>, and the store that comes back is the store that went in, so
  the entry's counter and \<open>resetAt\<close> are untouched.
\<close>

theorem checkRateLimit_denied_unchanged:
  assumes "st key = Some entry" and "now < resetAt entry" and "limit \<le> count entry"
  shows "fst (checkRateLimit st now key limit windowMs) =
           \<lparr>allowed = False, remaining = 0, resultResetAt = resetAt entry\<rparr> \<and>
         snd (checkRateLimit st now key limit windowMs) = st \<and>
         snd (checkRateLimit st now key limit windowMs) key = Some entry"
  using assms by (simp add: checkRateLimit_full)

theorem checkRateLimit_denied_unchanged_witness:
  "fst (checkRateLimit [''ip'' \<mapsto> \<lparr>count = 20, resetAt = 600000\<rparr>] 1500 ''ip'' 20 600000) =
     \<lparr>allowed = False, remaining = 0, resultResetAt = 600000\<rparr> \<and>
   snd (checkRateLimit [''ip'' \<mapsto> \<lparr>count = 20, resetAt = 600000\<rparr>] 1500 ''ip'' 20 600000) =
     [''ip'' \<mapsto> \<lparr>count = 20, resetAt = 600000\<rparr>]"
  using checkRateLimit_denied_unchanged
    [of "[''ip'' \<mapsto> \<lparr>count = 20, resetAt = 600000\<rparr>]" "''ip''"
        "\<lparr>count = 20, resetAt = 600000\<rparr>" 1500 20 600000]
  by simp

end
